theory Spec2Isabelle
  imports Complex_Main
begin

section \<open>Temporal Context Model demo: numbers, vectors and the math helpers\<close>

text \<open>
  The program is \<^verbatim>\<open>src/demos/tcm/index.tsx\<close>. Its vectors are JavaScript arrays of
  numbers. A number is modelled as an exact real, or as \<open>NaN\<close>, the value that
  arithmetic yields when an operand is \<^verbatim>\<open>undefined\<close> (an array read past the end).
  Rounding of IEEE doubles and overflow to an infinity are not modelled: every
  statement below is about the exact values.
\<close>

datatype number = Num real | NaN

fun num_add :: "number \<Rightarrow> number \<Rightarrow> number" where
  "num_add (Num a) (Num b) = Num (a + b)"
| "num_add _ _ = NaN"

fun num_mul :: "number \<Rightarrow> number \<Rightarrow> number" where
  "num_mul (Num a) (Num b) = Num (a * b)"
| "num_mul _ _ = NaN"

type_synonym vec = "number list"

text \<open>\<^verbatim>\<open>v[i]\<close> inside an arithmetic expression: past the end it is \<^verbatim>\<open>undefined\<close>,
  which arithmetic turns into \<open>NaN\<close>.\<close>

definition read :: "vec \<Rightarrow> nat \<Rightarrow> number" where
  "read v i = (if i < length v then v ! i else NaN)"

text \<open>The errors a JavaScript engine throws in the code modelled here.\<close>

datatype error = RangeError | TypeError

definition ITEMS :: "string list" where
  "ITEMS = [''Apple'', ''Beach'', ''Car'', ''Dog'', ''Eagle'', ''Forest'']"

definition VECTOR_SIZE :: int where
  "VECTOR_SIZE = 6"

text \<open>\<^verbatim>\<open>const dot = (v1, v2) => v1.reduce((sum, val, i) => sum + val * v2[i], 0)\<close>\<close>

definition dot :: "vec \<Rightarrow> vec \<Rightarrow> number" where
  "dot v1 v2 =
     foldl (\<lambda>sum (i, val). num_add sum (num_mul val (read v2 i))) (Num 0) (enumerate 0 v1)"

text \<open>\<^verbatim>\<open>const scale = (v, s) => v.map(val => val * s)\<close>\<close>

definition scale :: "vec \<Rightarrow> number \<Rightarrow> vec" where
  "scale v s = map (\<lambda>val. num_mul val s) v"

text \<open>\<^verbatim>\<open>const add = (v1, v2) => v1.map((val, i) => val + v2[i])\<close>\<close>

definition add :: "vec \<Rightarrow> vec \<Rightarrow> vec" where
  "add v1 v2 = map (\<lambda>(i, val). num_add val (read v2 i)) (enumerate 0 v1)"

text \<open>
  \<^verbatim>\<open>new Array(size).fill(0)\<close>: the constructor throws a \<^verbatim>\<open>RangeError\<close> unless \<open>size\<close>
  is an array length, that is an integer with \<open>0 \<le> size < 2^32\<close>. Sizes are taken
  as integers, which is what every caller passes.
\<close>

definition new_Array_fill0 :: "int \<Rightarrow> error + vec" where
  "new_Array_fill0 sz =
     (if 0 \<le> sz \<and> sz < 2 ^ 32 then Inr (replicate (nat sz) (Num 0)) else Inl RangeError)"

text \<open>
  \<^verbatim>\<open>
  const createItemVector = (index, size) => {
    const v = new Array(size).fill(0);
    if (index >= 0 && index < size) v[index] = 1;
    return v;
  };
  \<close>
  The index is taken as an integer too.
\<close>

definition createItemVector :: "int \<Rightarrow> int \<Rightarrow> error + vec" where
  "createItemVector index sz =
     (case new_Array_fill0 sz of
        Inl e \<Rightarrow> Inl e
      | Inr v \<Rightarrow> Inr (if index \<ge> 0 \<and> index < sz then v[nat index := Num 1] else v))"

section \<open>The recency slide\<close>

text \<open>
  \<^verbatim>\<open>RetrievalRecency\<close> presents the six items once each and compares the context at
  the end of the list with the context stored with every item. Its constants
  \<^verbatim>\<open>rho = 0.6\<close> and \<^verbatim>\<open>beta = 0.8\<close> are arguments of the model, so that statements can
  range over them; \<open>RetrievalRecency\<close> below supplies the values of the source.
  The arrays that \<^verbatim>\<open>states\<close> shares with \<^verbatim>\<open>currentContext\<close> are never written after
  they are built (\<^verbatim>\<open>scale\<close> and \<^verbatim>\<open>add\<close> build new arrays with \<^verbatim>\<open>map\<close>), so the records
  hold the vectors themselves here; the drift slide below is modelled with an
  explicit store.

  Field names that several object shapes of the source share (\<^verbatim>\<open>item\<close>, \<^verbatim>\<open>context\<close>,
  \<^verbatim>\<open>name\<close>) or that are needed as variable names carry a prefix in the records: \<open>s_\<close>
  for an entry of \<^verbatim>\<open>similarities\<close>, \<open>h_\<close> for an entry of \<^verbatim>\<open>encodingHistory\<close>, \<open>a_\<close> for an
  entry of \<^verbatim>\<open>activations\<close>, \<open>d_\<close> for a history record of the drift slide and \<open>s_\<close> for
  the state of the drift slide.
\<close>

definition listLength :: nat where
  "listLength = 6"

record state_entry =
  item :: string
  contextAtEncoding :: vec

record similarity_entry =
  s_name :: string
  s_similarity :: number
  s_index :: nat

text \<open>
  \<^verbatim>\<open>
  for (let i = 0; i < listLength; i++) {
    const itemVec = createItemVector(i, VECTOR_SIZE);
    currentContext = add(scale(currentContext, rho), scale(itemVec, beta));
    states.push({ item: ITEMS[i], contextAtEncoding: currentContext });
  }
  \<close>
\<close>

function RetrievalRecency_loop ::
  "number \<Rightarrow> number \<Rightarrow> nat \<Rightarrow> vec \<Rightarrow> state_entry list \<Rightarrow> error + vec \<times> state_entry list" where
  "RetrievalRecency_loop rho beta i currentContext states =
     (if i < listLength then
        (case createItemVector (int i) VECTOR_SIZE of
           Inl e \<Rightarrow> Inl e
         | Inr itemVec \<Rightarrow>
             (let currentContext' = add (scale currentContext rho) (scale itemVec beta)
              in RetrievalRecency_loop rho beta (Suc i) currentContext'
                   (states @ [\<lparr>item = ITEMS ! i, contextAtEncoding = currentContext'\<rparr>])))
      else Inr (currentContext, states))"
  by pat_completeness auto
termination
  by (relation "measure (\<lambda>(rho, beta, i, currentContext, states). listLength - i)") auto

declare RetrievalRecency_loop.simps [simp del]

text \<open>The loop from its start: the zero context and no states.\<close>

definition RetrievalRecency_states :: "number \<Rightarrow> number \<Rightarrow> error + vec \<times> state_entry list" where
  "RetrievalRecency_states rho beta =
     (case new_Array_fill0 VECTOR_SIZE of
        Inl e \<Rightarrow> Inl e
      | Inr currentContext \<Rightarrow> RetrievalRecency_loop rho beta 0 currentContext [])"

text \<open>
  \<^verbatim>\<open>
  const similarities = states.map((state, i) => ({
    name: state.item,
    similarity: dot(endOfListContext, state.contextAtEncoding),
    index: i
  }));
  \<close>
\<close>

definition similarities :: "vec \<Rightarrow> state_entry list \<Rightarrow> similarity_entry list" where
  "similarities endOfListContext states =
     map (\<lambda>(i, state). \<lparr>s_name = item state,
                         s_similarity = dot endOfListContext (contextAtEncoding state),
                         s_index = i\<rparr>)
       (enumerate 0 states)"



section \<open>The contiguity slide\<close>

text \<open>
  \<^verbatim>\<open>RetrievalContiguity\<close> builds the same kind of history (its constants are
  \<^verbatim>\<open>rho = 0.75\<close> and \<^verbatim>\<open>beta = 0.6\<close>, again arguments of the model) and lets the user
  pick the record whose context becomes the probe. \<^verbatim>\<open>recalledIndex\<close> is \<^verbatim>\<open>null\<close> or
  the index of the button pressed.
\<close>

record history_entry =
  h_item :: string
  h_context :: vec
  h_originalIndex :: nat

record activation_entry =
  a_name :: string
  a_activation :: number
  a_isTarget :: bool

function encodingHistory_loop ::
  "number \<Rightarrow> number \<Rightarrow> nat \<Rightarrow> vec \<Rightarrow> history_entry list \<Rightarrow> error + history_entry list" where
  "encodingHistory_loop rho beta i ctx hist =
     (if i < listLength then
        (case createItemVector (int i) VECTOR_SIZE of
           Inl e \<Rightarrow> Inl e
         | Inr itemVec \<Rightarrow>
             (let ctx' = add (scale ctx rho) (scale itemVec beta)
              in encodingHistory_loop rho beta (Suc i) ctx'
                   (hist @ [\<lparr>h_item = ITEMS ! i, h_context = ctx', h_originalIndex = i\<rparr>])))
      else Inr hist)"
  by pat_completeness auto
termination
  by (relation "measure (\<lambda>(rho, beta, i, ctx, hist). listLength - i)") auto

declare encodingHistory_loop.simps [simp del]

definition encodingHistory :: "number \<Rightarrow> number \<Rightarrow> error + history_entry list" where
  "encodingHistory rho beta =
     (case new_Array_fill0 VECTOR_SIZE of
        Inl e \<Rightarrow> Inl e
      | Inr ctx \<Rightarrow> encodingHistory_loop rho beta 0 ctx [])"

text \<open>
  \<^verbatim>\<open>
  const currentProbeContext = recalledIndex === null
    ? encodingHistory[listLength - 1].context
    : encodingHistory[recalledIndex].context;
  \<close>
  Reading \<^verbatim>\<open>.context\<close> of a record that is not there (\<^verbatim>\<open>undefined\<close>) throws a
  \<^verbatim>\<open>TypeError\<close>.
\<close>

definition currentProbeContext :: "history_entry list \<Rightarrow> nat option \<Rightarrow> error + vec" where
  "currentProbeContext hist recalledIndex =
     (let k = (case recalledIndex of None \<Rightarrow> listLength - 1 | Some r \<Rightarrow> r)
      in if k < length hist then Inr (h_context (hist ! k)) else Inl TypeError)"

text \<open>
  \<^verbatim>\<open>
  const activations = encodingHistory.map((entry, i) => {
    return {
      name: entry.item,
      activation: dot(currentProbeContext, entry.context),
      isTarget: i === recalledIndex
    };
  });
  \<close>
\<close>

definition activations :: "vec \<Rightarrow> history_entry list \<Rightarrow> nat option \<Rightarrow> activation_entry list" where
  "activations probe hist recalledIndex =
     map (\<lambda>(i, entry). \<lparr>a_name = h_item entry,
                         a_activation = dot probe (h_context entry),
                         a_isTarget = (recalledIndex = Some i)\<rparr>)
       (enumerate 0 hist)"

definition RetrievalContiguity_activations ::
  "number \<Rightarrow> number \<Rightarrow> nat option \<Rightarrow> error + activation_entry list" where
  "RetrievalContiguity_activations rho beta recalledIndex =
     (case encodingHistory rho beta of
        Inl e \<Rightarrow> Inl e
      | Inr hist \<Rightarrow>
          (case currentProbeContext hist recalledIndex of
             Inl e \<Rightarrow> Inl e
           | Inr probe \<Rightarrow> Inr (activations probe hist recalledIndex)))"

definition RetrievalContiguity :: "nat option \<Rightarrow> error + activation_entry list" where
  "RetrievalContiguity = RetrievalContiguity_activations (Num 0.75) (Num 0.6)"

section \<open>The drift slide\<close>

text \<open>
  \<^verbatim>\<open>DriftSimulator\<close> keeps \<^verbatim>\<open>beta\<close>, \<^verbatim>\<open>rho\<close>, \<^verbatim>\<open>context\<close>, \<^verbatim>\<open>history\<close> and \<^verbatim>\<open>step\<close> in
  React state. A history record holds a reference to the very array that becomes
  the current context, so arrays live in an explicit store here: an array value is
  an address, \<^verbatim>\<open>map\<close> and \<^verbatim>\<open>new Array\<close> allocate, and nothing else writes a cell.
\<close>

type_synonym addr = nat

record store =
  cells :: "addr \<Rightarrow> vec"
  fresh :: addr

definition alloc :: "store \<Rightarrow> vec \<Rightarrow> store \<times> addr" where
  "alloc st v = (st\<lparr>cells := (cells st)(fresh st := v), fresh := Suc (fresh st)\<rparr>, fresh st)"

text \<open>The helpers on arrays in the store: each result is a newly allocated array.
  \<^verbatim>\<open>createItemVector\<close> writes only into the array it has just allocated.\<close>

definition scale_at :: "store \<Rightarrow> addr \<Rightarrow> number \<Rightarrow> store \<times> addr" where
  "scale_at st v s = alloc st (scale (cells st v) s)"

definition add_at :: "store \<Rightarrow> addr \<Rightarrow> addr \<Rightarrow> store \<times> addr" where
  "add_at st v1 v2 = alloc st (add (cells st v1) (cells st v2))"

definition createItemVector_at :: "store \<Rightarrow> int \<Rightarrow> int \<Rightarrow> error + store \<times> addr" where
  "createItemVector_at st index sz =
     (case createItemVector index sz of Inl e \<Rightarrow> Inl e | Inr v \<Rightarrow> Inr (alloc st v))"

record drift_entry =
  d_item :: string
  d_context :: addr

record DriftSimulator_state =
  s_beta :: number
  s_rho :: number
  s_context :: addr
  s_history :: "drift_entry list"
  s_step :: nat
  s_store :: store

text \<open>
  The initial state: \<^verbatim>\<open>useState(0.6)\<close> for beta, \<^verbatim>\<open>useState(0.8)\<close> for rho,
  \<^verbatim>\<open>useState(new Array(6).fill(0))\<close> for the context, an empty history, step 0.
  With the literal length 6 the array constructor cannot fail.
\<close>

definition DriftSimulator_init :: DriftSimulator_state where
  "DriftSimulator_init =
     (let (st, a) = alloc \<lparr>cells = (\<lambda>_. []), fresh = 0\<rparr> (replicate 6 (Num 0))
      in \<lparr>s_beta = Num 0.6, s_rho = Num 0.8, s_context = a, s_history = [],
           s_step = 0, s_store = st\<rparr>)"

text \<open>
  \<^verbatim>\<open>
  const currentItemName = ITEMS[step % ITEMS.length];
  const processNextItem = () => {
    const itemIdx = step % ITEMS.length;
    const itemVec = createItemVector(itemIdx, VECTOR_SIZE);
    const decayedContext = scale(context, rho);
    const inputContext = scale(itemVec, beta);
    const newContext = add(decayedContext, inputContext);
    setContext(newContext);
    setHistory([...history, { item: currentItemName, context: newContext }]);
    setStep(s => s + 1);
  };
  \<close>
\<close>

definition processNextItem :: "DriftSimulator_state \<Rightarrow> error + DriftSimulator_state" where
  "processNextItem s =
     (let itemIdx = s_step s mod length ITEMS
      in case createItemVector_at (s_store s) (int itemIdx) VECTOR_SIZE of
           Inl e \<Rightarrow> Inl e
         | Inr (st1, itemVec) \<Rightarrow>
             (let (st2, decayedContext) = scale_at st1 (s_context s) (s_rho s);
                  (st3, inputContext) = scale_at st2 itemVec (s_beta s);
                  (st4, newContext) = add_at st3 decayedContext inputContext
              in Inr (s\<lparr>s_context := newContext,
                        s_history := s_history s @ [\<lparr>d_item = ITEMS ! itemIdx, d_context = newContext\<rparr>],
                        s_step := s_step s + 1,
                        s_store := st4\<rparr>)))"

text \<open>
  \<^verbatim>\<open>
  const reset = () => {
    setContext(new Array(6).fill(0));
    setHistory([]);
    setStep(0);
  };
  \<close>
\<close>

definition reset :: "DriftSimulator_state \<Rightarrow> DriftSimulator_state" where
  "reset s =
     (let (st, a) = alloc (s_store s) (replicate 6 (Num 0))
      in s\<lparr>s_context := a, s_history := [], s_step := 0, s_store := st\<rparr>)"

text \<open>
  The sliders: \<^verbatim>\<open>onChange={(e) => setRho(parseFloat(e.target.value))}\<close> and the same
  with \<^verbatim>\<open>setBeta\<close>. The argument here is the number that \<^verbatim>\<open>parseFloat\<close> returned.
\<close>

definition onChange_rho :: "number \<Rightarrow> DriftSimulator_state \<Rightarrow> DriftSimulator_state" where
  "onChange_rho v s = s\<lparr>s_rho := v\<rparr>"

definition onChange_beta :: "number \<Rightarrow> DriftSimulator_state \<Rightarrow> DriftSimulator_state" where
  "onChange_beta v s = s\<lparr>s_beta := v\<rparr>"

text \<open>The user's actions on the slide, and a session as a list of them.\<close>

datatype event = ProcessNextItem | Reset | SetRho number | SetBeta number

fun handle :: "event \<Rightarrow> DriftSimulator_state \<Rightarrow> error + DriftSimulator_state" where
  "handle ProcessNextItem s = processNextItem s"
| "handle Reset s = Inr (reset s)"
| "handle (SetRho v) s = Inr (onChange_rho v s)"
| "handle (SetBeta v) s = Inr (onChange_beta v s)"

fun run :: "event list \<Rightarrow> DriftSimulator_state \<Rightarrow> error + DriftSimulator_state" where
  "run [] s = Inr s"
| "run (ev # evs) s = (case handle ev s of Inl e \<Rightarrow> Inl e | Inr s' \<Rightarrow> run evs s')"

text \<open>
  The invariant of the store: the current context and every snapshot of the history
  are allocated arrays.
\<close>

definition allocated :: "DriftSimulator_state \<Rightarrow> bool" where
  "allocated s \<longleftrightarrow>
     s_context s < fresh (s_store s) \<and> list_all (\<lambda>e. d_context e < fresh (s_store s)) (s_history s)"

section \<open>Vectors of finite numbers\<close>

lemma replicate6: "replicate 6 x = [x, x, x, x, x, x]"
  by (simp add: eval_nat_numeral)

lemma upt6: "[0..<6] = [0, 1, 2, 3, 4, 5]"
  by (simp add: upt_rec)

lemma length_ITEMS: "length ITEMS = 6"
  by (simp add: ITEMS_def)

lemma length_scale [simp]: "length (scale v s) = length v"
  by (simp add: scale_def)

lemma nth_scale: "i < length v \<Longrightarrow> scale v s ! i = num_mul (v ! i) s"
  by (simp add: scale_def)

lemma length_add [simp]: "length (add v1 v2) = length v1"
  by (simp add: add_def)

lemma nth_add: "i < length v1 \<Longrightarrow> add v1 v2 ! i = num_add (v1 ! i) (read v2 i)"
  by (simp add: add_def nth_enumerate_eq)

lemma update_Num:
  assumes "length itemVec = length old"
  shows "add (scale (map Num old) (Num rho)) (scale (map Num itemVec) (Num beta)) =
           map (\<lambda>(x, y). Num (rho * x + beta * y)) (zip old itemVec)"
  using assms
  by (intro nth_equalityI) (simp_all add: nth_add nth_scale read_def mult.commute)

text \<open>The fold of \<^verbatim>\<open>dot\<close>, started at any index and any partial sum.\<close>

lemma dot_foldl_Num:
  assumes "n + length xs \<le> length ys"
  shows "foldl (\<lambda>sum (i, val). num_add sum (num_mul val (read (map Num ys) i))) (Num a)
           (enumerate n (map Num xs))
         = Num (a + (\<Sum>(x, y)\<leftarrow>zip xs (drop n ys). x * y))"
  using assms
proof (induction xs arbitrary: n a)
  case Nil
  then show ?case by simp
next
  case (Cons x xs)
  from Cons.prems have n: "n < length ys" and n': "Suc n + length xs \<le> length ys" by simp_all
  have d: "drop n ys = ys ! n # drop (Suc n) ys"
    using n by (simp add: Cons_nth_drop_Suc)
  show ?case
    using Cons.IH [OF n'] n by (simp add: read_def d add.assoc)
qed

lemma dot_Num:
  assumes "length xs \<le> length ys"
  shows "dot (map Num xs) (map Num ys) = Num (\<Sum>(x, y)\<leftarrow>zip xs ys. x * y)"
  using dot_foldl_Num [of 0 xs ys 0] assms by (simp add: dot_def)

section \<open>The item-vector constructor\<close>

lemma new_Array_fill0_ok:
  "0 \<le> sz \<Longrightarrow> sz < 2 ^ 32 \<Longrightarrow> new_Array_fill0 sz = Inr (replicate (nat sz) (Num 0))"
  by (simp add: new_Array_fill0_def)

lemma createItemVector_out_of_range:
  assumes "0 \<le> sz" "sz < 2 ^ 32" "index < 0 \<or> sz \<le> index"
  shows "createItemVector index sz = Inr (replicate (nat sz) (Num 0))"
  using assms by (auto simp add: createItemVector_def new_Array_fill0_def)

lemma createItemVector_one_hot:
  assumes "0 \<le> sz" "sz < 2 ^ 32"
  shows "createItemVector index sz =
           Inr (map (\<lambda>j. if int j = index then Num 1 else Num 0) [0..<nat sz])"
proof -
  let ?z = "replicate (nat sz) (Num 0)"
  let ?h = "map (\<lambda>j. if int j = index then Num 1 else Num 0) [0..<nat sz]"
  have "(if index \<ge> 0 \<and> index < sz then ?z[nat index := Num 1] else ?z) = ?h"
    by (rule nth_equalityI) (auto simp add: nth_list_update)
  then show ?thesis
    using assms by (simp add: createItemVector_def new_Array_fill0_ok)
qed

lemma createItemVector_VECTOR_SIZE:
  "createItemVector (int i) VECTOR_SIZE = Inr (map (\<lambda>j. if j = i then Num 1 else Num 0) [0..<6])"
  using createItemVector_one_hot [of 6 "int i"] by (simp add: VECTOR_SIZE_def)

text \<open>
  Claim C6, as the code has it. With \<open>N\<close> an array length (the program uses
  \<open>VECTOR_SIZE = 6\<close>), \<^verbatim>\<open>createItemVector\<close> returns the one-hot vector of dimension \<open>N\<close>
  for every index in \<open>[0, N)\<close>. For an index outside \<open>[0, N)\<close> it does not fail: the guard
  \<^verbatim>\<open>index >= 0 && index < size\<close> skips the write and the all-zero vector of dimension
  \<open>N\<close> is returned.
\<close>

theorem createItemVector_one_hot_or_zero:
  assumes "0 \<le> sz" "sz < 2 ^ 32"
  shows "(0 \<le> index \<and> index < sz \<longrightarrow>
            createItemVector index sz =
              Inr (map (\<lambda>j. if int j = index then Num 1 else Num 0) [0..<nat sz]))
       \<and> (index < 0 \<or> sz \<le> index \<longrightarrow>
            createItemVector index sz = Inr (replicate (nat sz) (Num 0)))"
  using assms createItemVector_out_of_range [of sz index]
  by (simp add: createItemVector_one_hot)

theorem createItemVector_one_hot_or_zero_witness:
  "createItemVector 2 6 = Inr [Num 0, Num 0, Num 1, Num 0, Num 0, Num 0]
   \<and> createItemVector 6 6 = Inr [Num 0, Num 0, Num 0, Num 0, Num 0, Num 0]
   \<and> createItemVector (- 1) 6 = Inr [Num 0, Num 0, Num 0, Num 0, Num 0, Num 0]"
  using createItemVector_one_hot_or_zero [of 6 2] createItemVector_one_hot_or_zero [of 6 6]
    createItemVector_one_hot_or_zero [of 6 "- 1"]
  by (simp add: replicate6 upt_rec)

text \<open>
  Claim C6 as stated fails: the index 6 is not in \<open>[0, 6)\<close>, and the constructor returns
  the zero vector instead of failing.
\<close>

theorem createItemVector_index_6_no_error:
  "createItemVector 6 VECTOR_SIZE = Inr [Num 0, Num 0, Num 0, Num 0, Num 0, Num 0]
   \<and> \<not> isl (createItemVector 6 VECTOR_SIZE)"
  by (simp add: createItemVector_def new_Array_fill0_def VECTOR_SIZE_def replicate6)

text \<open>
  Claim C9, as the code has it. For every integer index and every size that is an array
  length (\<open>0 \<le> size < 2^32\<close>), \<^verbatim>\<open>createItemVector\<close> returns a vector of length \<open>size\<close>
  whose entries are 0 or 1, with at most one entry equal to 1, and the all-zero vector
  when the index is outside \<open>[0, size)\<close>.
\<close>

theorem createItemVector_total_on_array_lengths:
  assumes "0 \<le> sz" "sz < 2 ^ 32"
  shows "\<exists>v. createItemVector index sz = Inr v \<and> length v = nat sz
           \<and> (\<forall>j<length v. v ! j = Num 0 \<or> v ! j = Num 1)
           \<and> (\<forall>i<length v. \<forall>j<length v. v ! i = Num 1 \<and> v ! j = Num 1 \<longrightarrow> i = j)
           \<and> (index < 0 \<or> sz \<le> index \<longrightarrow> v = replicate (nat sz) (Num 0))"
proof -
  let ?h = "map (\<lambda>j. if int j = index then Num 1 else Num 0) [0..<nat sz]"
  have eq: "createItemVector index sz = Inr ?h"
    using assms by (rule createItemVector_one_hot)
  have "length ?h = nat sz" by simp
  moreover have "\<forall>j<length ?h. ?h ! j = Num 0 \<or> ?h ! j = Num 1" by simp
  moreover have "\<forall>i<length ?h. \<forall>j<length ?h. ?h ! i = Num 1 \<and> ?h ! j = Num 1 \<longrightarrow> i = j"
    by (auto split: if_splits)
  moreover have "index < 0 \<or> sz \<le> index \<longrightarrow> ?h = replicate (nat sz) (Num 0)"
    using createItemVector_out_of_range [OF assms, of index] eq by auto
  ultimately show ?thesis using eq by blast
qed

theorem createItemVector_total_on_array_lengths_witness:
  "\<exists>v. createItemVector 7 3 = Inr v \<and> length v = 3 \<and> v = [Num 0, Num 0, Num 0]"
  using createItemVector_total_on_array_lengths [of 3 7] by (auto simp add: eval_nat_numeral)

text \<open>
  Claim C9 as stated fails: \<open>2^32 = 4294967296\<close> is a non-negative size, and
  \<^verbatim>\<open>new Array(4294967296)\<close> throws a \<^verbatim>\<open>RangeError\<close>.
\<close>

theorem createItemVector_size_2_32_fails:
  "createItemVector 0 4294967296 = Inl RangeError"
  by (simp add: createItemVector_def new_Array_fill0_def)

section \<open>The closed form of the drifting context\<close>

text \<open>
  After the items \<open>0, \<dots>, i - 1\<close> the context holds \<open>beta * rho ^ (i - 1 - j)\<close> at
  \<open>j < i\<close> and 0 elsewhere; presenting item \<open>i\<close> keeps that shape.
\<close>

lemma drift_step:
  assumes "i < 6"
  shows "add (scale (map (\<lambda>j. Num (if j < i then beta * rho ^ (i - 1 - j) else 0)) [0..<6]) (Num rho))
             (scale (map (\<lambda>j. if j = i then Num 1 else Num 0) [0..<6]) (Num beta))
         = map (\<lambda>j. Num (if j < Suc i then beta * rho ^ (Suc i - 1 - j) else 0)) [0..<6]"
proof (rule nth_equalityI)
  show "length (add (scale (map (\<lambda>j. Num (if j < i then beta * rho ^ (i - 1 - j) else 0)) [0..<6]) (Num rho))
             (scale (map (\<lambda>j. if j = i then Num 1 else Num 0) [0..<6]) (Num beta)))
        = length (map (\<lambda>j. Num (if j < Suc i then beta * rho ^ (Suc i - 1 - j) else 0)) [0..<6])"
    by simp
next
  fix j
  assume "j < length (add (scale (map (\<lambda>j. Num (if j < i then beta * rho ^ (i - 1 - j) else 0)) [0..<6]) (Num rho))
             (scale (map (\<lambda>j. if j = i then Num 1 else Num 0) [0..<6]) (Num beta)))"
  then have j: "j < 6" by simp
  have p: "j < i \<Longrightarrow> rho ^ (i - j) = rho ^ (i - 1 - j) * rho"
  proof -
    assume "j < i"
    then have "i - j = Suc (i - 1 - j)" by simp
    then show ?thesis by simp
  qed
  show "add (scale (map (\<lambda>j. Num (if j < i then beta * rho ^ (i - 1 - j) else 0)) [0..<6]) (Num rho))
             (scale (map (\<lambda>j. if j = i then Num 1 else Num 0) [0..<6]) (Num beta)) ! j
        = map (\<lambda>j. Num (if j < Suc i then beta * rho ^ (Suc i - 1 - j) else 0)) [0..<6] ! j"
    using j p by (simp add: nth_add nth_scale read_def less_Suc_eq)
qed

lemma zero_context:
  "new_Array_fill0 VECTOR_SIZE
     = Inr (map (\<lambda>j. Num (if j < 0 then beta * rho ^ (0 - 1 - j) else 0)) [0..<6])"
  by (simp add: new_Array_fill0_def VECTOR_SIZE_def map_replicate_const)

lemma RetrievalRecency_loop_closed:
  assumes "i \<le> 6"
  shows "RetrievalRecency_loop (Num rho) (Num beta) i
           (map (\<lambda>j. Num (if j < i then beta * rho ^ (i - 1 - j) else 0)) [0..<6]) states
         = Inr (map (\<lambda>j. Num (if j < 6 then beta * rho ^ (6 - 1 - j) else 0)) [0..<6],
                states @ map (\<lambda>k. \<lparr>item = ITEMS ! k,
                    contextAtEncoding =
                      map (\<lambda>j. Num (if j < Suc k then beta * rho ^ (Suc k - 1 - j) else 0)) [0..<6]\<rparr>)
                  [i..<6])"
  using assms
proof (induction "6 - i" arbitrary: i states)
  case 0
  then have "i = 6" by simp
  then show ?case
    by (simp add: RetrievalRecency_loop.simps [of _ _ 6] listLength_def)
next
  case (Suc n)
  then have i: "i < 6" and n: "n = 6 - Suc i" and le: "Suc i \<le> 6" by simp_all
  have u: "[i..<6] = i # [Suc i..<6]"
    using i by (simp add: upt_conv_Cons)
  show ?case
    using i Suc.hyps(1) [OF n le]
    by (subst RetrievalRecency_loop.simps)
       (simp add: listLength_def createItemVector_VECTOR_SIZE drift_step u del: upt_Suc)
qed

lemma RetrievalRecency_states_closed:
  "RetrievalRecency_states (Num rho) (Num beta)
     = Inr (map (\<lambda>j. Num (if j < 6 then beta * rho ^ (6 - 1 - j) else 0)) [0..<6],
            map (\<lambda>k. \<lparr>item = ITEMS ! k,
                    contextAtEncoding =
                      map (\<lambda>j. Num (if j < Suc k then beta * rho ^ (Suc k - 1 - j) else 0)) [0..<6]\<rparr>)
              [0..<6])"
  unfolding RetrievalRecency_states_def zero_context [of beta rho]
  using RetrievalRecency_loop_closed [of 0 rho beta "[]"]
  by (simp only: sum.case append_Nil le0)

lemma RetrievalRecency_states_06_08:
  "RetrievalRecency_states (Num 0.6) (Num 0.8) =
     Inr ([Num 0.062208, Num 0.10368, Num 0.1728, Num 0.288, Num 0.48, Num 0.8],
          [\<lparr>item = ''Apple'', contextAtEncoding = [Num 0.8, Num 0, Num 0, Num 0, Num 0, Num 0]\<rparr>,
           \<lparr>item = ''Beach'', contextAtEncoding = [Num 0.48, Num 0.8, Num 0, Num 0, Num 0, Num 0]\<rparr>,
           \<lparr>item = ''Car'', contextAtEncoding = [Num 0.288, Num 0.48, Num 0.8, Num 0, Num 0, Num 0]\<rparr>,
           \<lparr>item = ''Dog'', contextAtEncoding = [Num 0.1728, Num 0.288, Num 0.48, Num 0.8, Num 0, Num 0]\<rparr>,
           \<lparr>item = ''Eagle'', contextAtEncoding = [Num 0.10368, Num 0.1728, Num 0.288, Num 0.48, Num 0.8, Num 0]\<rparr>,
           \<lparr>item = ''Forest'', contextAtEncoding = [Num 0.062208, Num 0.10368, Num 0.1728, Num 0.288, Num 0.48, Num 0.8]\<rparr>])"
  by (simp add: RetrievalRecency_states_closed upt6 ITEMS_def power_divide)

section \<open>Recency\<close>


section \<open>The store of the drift slide\<close>

lemma createItemVector_VECTOR_SIZE_ok: "\<exists>v. createItemVector index VECTOR_SIZE = Inr v"
  by (simp add: createItemVector_def new_Array_fill0_def VECTOR_SIZE_def)

text \<open>A presentation allocates and writes above \<open>fresh\<close> only.\<close>

lemma processNextItem_frame:
  "\<exists>s'. processNextItem s = Inr s'
     \<and> fresh (s_store s) < fresh (s_store s')
     \<and> (\<forall>a<fresh (s_store s). cells (s_store s') a = cells (s_store s) a)
     \<and> (\<exists>e. s_history s' = s_history s @ [e] \<and> d_context e < fresh (s_store s')
             \<and> d_context e = s_context s')
     \<and> s_context s' < fresh (s_store s')"
proof -
  obtain v where v: "createItemVector (int (s_step s mod length ITEMS)) VECTOR_SIZE = Inr v"
    using createItemVector_VECTOR_SIZE_ok by blast
  show ?thesis
    by (simp add: processNextItem_def createItemVector_at_def v scale_at_def add_at_def
        alloc_def Let_def)
qed

lemma handle_frame:
  assumes "allocated s" "ev \<noteq> Reset"
  shows "\<exists>s'. handle ev s = Inr s' \<and> allocated s'
           \<and> fresh (s_store s) \<le> fresh (s_store s')
           \<and> (\<forall>a<fresh (s_store s). cells (s_store s') a = cells (s_store s) a)
           \<and> (\<exists>es. s_history s' = s_history s @ es)"
proof (cases ev)
  case ProcessNextItem
  obtain s' e where s': "processNextItem s = Inr s'"
    and f: "fresh (s_store s) < fresh (s_store s')"
    and c: "\<forall>a<fresh (s_store s). cells (s_store s') a = cells (s_store s) a"
    and h: "s_history s' = s_history s @ [e]" "d_context e < fresh (s_store s')"
    and x: "s_context s' < fresh (s_store s')"
    using processNextItem_frame [of s] by blast
  have "list_all (\<lambda>e. d_context e < fresh (s_store s')) (s_history s)"
    using assms(1) f by (auto simp add: allocated_def list_all_iff)
  then have "allocated s'"
    using h x by (simp add: allocated_def)
  then show ?thesis
    using ProcessNextItem s' f c h by auto
next
  case Reset
  then show ?thesis using assms(2) by simp
next
  case (SetRho v)
  then show ?thesis using assms(1) by (simp add: onChange_rho_def allocated_def)
next
  case (SetBeta v)
  then show ?thesis using assms(1) by (simp add: onChange_beta_def allocated_def)
qed

lemma reset_allocated: "allocated (reset s)"
  by (simp add: reset_def alloc_def allocated_def)

lemma handle_allocated:
  assumes "allocated s"
  shows "\<exists>s'. handle ev s = Inr s' \<and> allocated s'"
proof (cases "ev = Reset")
  case True
  then show ?thesis by (simp add: reset_allocated)
next
  case False
  then show ?thesis using handle_frame [OF assms] by blast
qed

lemma run_allocated:
  "allocated s \<Longrightarrow> \<exists>s'. run evs s = Inr s' \<and> allocated s'"
proof (induction evs arbitrary: s)
  case Nil
  then show ?case by simp
next
  case (Cons ev evs)
  obtain s1 where s1: "handle ev s = Inr s1" "allocated s1"
    using handle_allocated [OF Cons.prems] by blast
  then show ?case using Cons.IH [of s1] by simp
qed

lemma init_allocated: "allocated DriftSimulator_init"
  by (simp add: DriftSimulator_init_def alloc_def allocated_def)

lemma run_frame:
  assumes "allocated s" "Reset \<notin> set evs"
  shows "\<exists>s'. run evs s = Inr s'
           \<and> fresh (s_store s) \<le> fresh (s_store s')
           \<and> (\<forall>a<fresh (s_store s). cells (s_store s') a = cells (s_store s) a)
           \<and> (\<exists>es. s_history s' = s_history s @ es)"
  using assms
proof (induction evs arbitrary: s)
  case Nil
  then show ?case by simp
next
  case (Cons ev evs)
  from Cons.prems have ne: "ev \<noteq> Reset" and rest: "Reset \<notin> set evs" by auto
  obtain s1 es1 where s1: "handle ev s = Inr s1" "allocated s1"
    and f1: "fresh (s_store s) \<le> fresh (s_store s1)"
    and c1: "\<forall>a<fresh (s_store s). cells (s_store s1) a = cells (s_store s) a"
    and h1: "s_history s1 = s_history s @ es1"
    using handle_frame [OF Cons.prems(1) ne] by blast
  obtain s2 es2 where s2: "run evs s1 = Inr s2"
    and f2: "fresh (s_store s1) \<le> fresh (s_store s2)"
    and c2: "\<forall>a<fresh (s_store s1). cells (s_store s2) a = cells (s_store s1) a"
    and h2: "s_history s2 = s_history s1 @ es2"
    using Cons.IH [OF s1(2) rest] by blast
  have "run (ev # evs) s = Inr s2" using s1 s2 by simp
  moreover have "fresh (s_store s) \<le> fresh (s_store s2)" using f1 f2 by simp
  moreover have "\<forall>a<fresh (s_store s). cells (s_store s2) a = cells (s_store s) a"
    using c1 c2 f1 by simp
  moreover have "s_history s2 = s_history s @ (es1 @ es2)" using h1 h2 by simp
  ultimately show ?case by blast
qed

lemma first_presentation:
  "\<exists>s. run [ProcessNextItem] DriftSimulator_init = Inr s
      \<and> length (s_history s) = 1
      \<and> cells (s_store s) (d_context (s_history s ! 0)) = [Num 0.6, Num 0, Num 0, Num 0, Num 0, Num 0]"
  by (simp add: DriftSimulator_init_def alloc_def
      processNextItem_def createItemVector_at_def length_ITEMS
      createItemVector_VECTOR_SIZE scale_at_def add_at_def Let_def replicate6 upt6
      scale_def add_def read_def)

text \<open>
  Claim C5. Take any state \<open>s\<close> the drift slide can reach and any further actions that
  present items or move the sliders. They end in a state \<open>s'\<close> whose history starts with
  the records of \<open>s\<close>, each still pointing at an array whose contents are what they were
  in \<open>s\<close>: no presentation changes a stored snapshot.
\<close>

theorem snapshots_unchanged:
  assumes "run evs DriftSimulator_init = Inr s" "Reset \<notin> set evs'"
  shows "\<exists>s'. run evs' s = Inr s'
           \<and> length (s_history s) \<le> length (s_history s')
           \<and> (\<forall>i<length (s_history s).
                 s_history s' ! i = s_history s ! i
               \<and> cells (s_store s') (d_context (s_history s' ! i))
                   = cells (s_store s) (d_context (s_history s ! i)))"
proof -
  have a: "allocated s"
    using run_allocated [OF init_allocated, of evs] assms(1) by simp
  obtain s' es where s': "run evs' s = Inr s'"
    and c: "\<forall>a<fresh (s_store s). cells (s_store s') a = cells (s_store s) a"
    and h: "s_history s' = s_history s @ es"
    using run_frame [OF a assms(2)] by blast
  have "\<forall>i<length (s_history s). d_context (s_history s ! i) < fresh (s_store s)"
    using a by (simp add: allocated_def list_all_length)
  then show ?thesis
    using s' c h by (simp add: nth_append)
qed

theorem snapshots_unchanged_witness:
  "\<exists>s s'. run [ProcessNextItem] DriftSimulator_init = Inr s
      \<and> run [ProcessNextItem, SetRho (Num 0.5), ProcessNextItem] s = Inr s'
      \<and> s_history s' ! 0 = s_history s ! 0
      \<and> cells (s_store s) (d_context (s_history s ! 0)) = [Num 0.6, Num 0, Num 0, Num 0, Num 0, Num 0]
      \<and> cells (s_store s') (d_context (s_history s' ! 0)) = [Num 0.6, Num 0, Num 0, Num 0, Num 0, Num 0]"
proof -
  obtain s where s: "run [ProcessNextItem] DriftSimulator_init = Inr s"
    and l: "length (s_history s) = 1"
    and c: "cells (s_store s) (d_context (s_history s ! 0)) = [Num 0.6, Num 0, Num 0, Num 0, Num 0, Num 0]"
    using first_presentation by blast
  have r: "Reset \<notin> set [ProcessNextItem, SetRho (Num 0.5), ProcessNextItem]" by simp
  obtain s' where s': "run [ProcessNextItem, SetRho (Num 0.5), ProcessNextItem] s = Inr s'"
    and a: "\<forall>i<length (s_history s).
                 s_history s' ! i = s_history s ! i
               \<and> cells (s_store s') (d_context (s_history s' ! i))
                   = cells (s_store s) (d_context (s_history s ! i))"
    using snapshots_unchanged [OF s r] by blast
  have "s_history s' ! 0 = s_history s ! 0"
    and "cells (s_store s') (d_context (s_history s' ! 0)) = cells (s_store s) (d_context (s_history s ! 0))"
    using a l by auto
  then show ?thesis using s s' c by metis
qed

section \<open>The context update\<close>

lemma one_hot_Num:
  "map (\<lambda>j. if j = i then Num 1 else Num 0) [0..<6]
     = map Num (map (\<lambda>j. if j = i then 1 else 0) [0..<6])"
  by simp

lemma processNextItem_context:
  assumes "s_rho s = Num rho" "s_beta s = Num beta"
    and "cells (s_store s) (s_context s) = map Num old" "length old = 6"
    and "allocated s"
  shows "\<exists>s'. processNextItem s = Inr s'
           \<and> cells (s_store s') (s_context s')
               = map (\<lambda>(x, y). Num (rho * x + beta * y))
                   (zip old (map (\<lambda>j. if j = s_step s mod 6 then 1 else 0) [0..<6]))"
proof -
  have c: "s_context s \<noteq> fresh (s_store s)"
    using assms(5) by (simp add: allocated_def)
  show ?thesis
    using assms(1-4) c
    by (simp add: processNextItem_def createItemVector_at_def length_ITEMS
      createItemVector_VECTOR_SIZE scale_at_def add_at_def alloc_def Let_def one_hot_Num update_Num
      del: upt_Suc map_map)
qed

lemma first_presentation_06_08:
  "\<exists>s. run [SetRho (Num 0.6), SetBeta (Num 0.8), ProcessNextItem] DriftSimulator_init = Inr s
      \<and> s_rho s = Num 0.6 \<and> s_beta s = Num 0.8 \<and> s_step s = 1
      \<and> cells (s_store s) (s_context s) = map Num [0.8, 0, 0, 0, 0, 0]"
  by (simp add: onChange_rho_def onChange_beta_def DriftSimulator_init_def alloc_def
      processNextItem_def createItemVector_at_def length_ITEMS
      createItemVector_VECTOR_SIZE scale_at_def add_at_def Let_def replicate6 upt6
      scale_def add_def read_def)

text \<open>
  Claim C1. For a context \<open>old\<close> and an item vector of the same dimension, both of finite
  numbers, the update \<^verbatim>\<open>add(scale(context, rho), scale(itemVec, beta))\<close> is
  \<open>rho * old + beta * itemVec\<close> component by component, and nothing normalizes it.
  \<^verbatim>\<open>processNextItem\<close> makes exactly that vector, with the one-hot vector of the item
  \<open>step mod 6\<close>, the current context. From the zero 6-vector with \<open>rho = 0.6\<close> and
  \<open>beta = 0.8\<close>, item 0 gives \<open>[0.8, 0, 0, 0, 0, 0]\<close> and item 1 then gives
  \<open>[0.48, 0.8, 0, 0, 0, 0]\<close>.
\<close>

theorem context_update:
  "(length itemVec = length old \<longrightarrow>
      add (scale (map Num old) (Num rho)) (scale (map Num itemVec) (Num beta))
        = map (\<lambda>(x, y). Num (rho * x + beta * y)) (zip old itemVec))
   \<and> (run evs DriftSimulator_init = Inr s \<and> s_rho s = Num rho \<and> s_beta s = Num beta
        \<and> cells (s_store s) (s_context s) = map Num old \<and> length old = 6 \<longrightarrow>
      (\<exists>s'. processNextItem s = Inr s'
         \<and> cells (s_store s') (s_context s')
             = map (\<lambda>(x, y). Num (rho * x + beta * y))
                 (zip old (map (\<lambda>j. if j = s_step s mod 6 then 1 else 0) [0..<6]))))
   \<and> (\<exists>c states. RetrievalRecency_states (Num 0.6) (Num 0.8) = Inr (c, states)
         \<and> contextAtEncoding (states ! 0) = [Num 0.8, Num 0, Num 0, Num 0, Num 0, Num 0]
         \<and> contextAtEncoding (states ! 1) = [Num 0.48, Num 0.8, Num 0, Num 0, Num 0, Num 0])"
proof (intro conjI impI)
  assume "length itemVec = length old"
  then show "add (scale (map Num old) (Num rho)) (scale (map Num itemVec) (Num beta))
        = map (\<lambda>(x, y). Num (rho * x + beta * y)) (zip old itemVec)"
    by (rule update_Num)
next
  assume a: "run evs DriftSimulator_init = Inr s \<and> s_rho s = Num rho \<and> s_beta s = Num beta
        \<and> cells (s_store s) (s_context s) = map Num old \<and> length old = 6"
  then have "allocated s"
    using run_allocated [OF init_allocated, of evs] by simp
  then show "\<exists>s'. processNextItem s = Inr s'
         \<and> cells (s_store s') (s_context s')
             = map (\<lambda>(x, y). Num (rho * x + beta * y))
                 (zip old (map (\<lambda>j. if j = s_step s mod 6 then 1 else 0) [0..<6]))"
    using a processNextItem_context [of s rho beta old] by blast
next
  show "\<exists>c states. RetrievalRecency_states (Num 0.6) (Num 0.8) = Inr (c, states)
         \<and> contextAtEncoding (states ! 0) = [Num 0.8, Num 0, Num 0, Num 0, Num 0, Num 0]
         \<and> contextAtEncoding (states ! 1) = [Num 0.48, Num 0.8, Num 0, Num 0, Num 0, Num 0]"
    unfolding RetrievalRecency_states_06_08 by simp
qed

theorem context_update_witness:
  "\<exists>s s'. run [SetRho (Num 0.6), SetBeta (Num 0.8), ProcessNextItem] DriftSimulator_init = Inr s
      \<and> cells (s_store s) (s_context s) = [Num 0.8, Num 0, Num 0, Num 0, Num 0, Num 0]
      \<and> processNextItem s = Inr s'
      \<and> cells (s_store s') (s_context s') = [Num 0.48, Num 0.8, Num 0, Num 0, Num 0, Num 0]
      \<and> add (scale [Num 0.8, Num 0, Num 0, Num 0, Num 0, Num 0] (Num 0.6))
             (scale [Num 0, Num 1, Num 0, Num 0, Num 0, Num 0] (Num 0.8))
           = [Num 0.48, Num 0.8, Num 0, Num 0, Num 0, Num 0]"
proof -
  obtain s where s: "run [SetRho (Num 0.6), SetBeta (Num 0.8), ProcessNextItem] DriftSimulator_init = Inr s"
    "s_rho s = Num 0.6" "s_beta s = Num 0.8" "s_step s = 1"
    "cells (s_store s) (s_context s) = map Num [0.8, 0, 0, 0, 0, 0]"
    using first_presentation_06_08 by blast
  have l: "length [0.8, 0, 0, 0, 0, 0 :: real] = 6" by simp
  note cu = context_update [of "[0, 1, 0, 0, 0, 0]" "[0.8, 0, 0, 0, 0, 0]" "0.6" "0.8"
      "[SetRho (Num 0.6), SetBeta (Num 0.8), ProcessNextItem]" s]
  have g: "add (scale (map Num [0.8, 0, 0, 0, 0, 0]) (Num 0.6)) (scale (map Num [0, 1, 0, 0, 0, 0]) (Num 0.8))
        = map (\<lambda>(x, y). Num (0.6 * x + 0.8 * y)) (zip [0.8, 0, 0, 0, 0, 0] [0, 1, 0, 0, 0, 0])"
    using cu l by (elim conjE) simp
  have h: "\<exists>s'. processNextItem s = Inr s'
         \<and> cells (s_store s') (s_context s')
             = map (\<lambda>(x, y). Num (0.6 * x + 0.8 * y))
                 (zip [0.8, 0, 0, 0, 0, 0] (map (\<lambda>j. if j = s_step s mod 6 then 1 else 0) [0..<6]))"
    using cu s l by (elim conjE) blast
  from h obtain s' where s': "processNextItem s = Inr s'"
    "cells (s_store s') (s_context s')
             = map (\<lambda>(x, y). Num (0.6 * x + 0.8 * y))
                 (zip [0.8, 0, 0, 0, 0, 0] (map (\<lambda>j. if j = s_step s mod 6 then 1 else 0) [0..<6]))"
    by blast
  show ?thesis
    using s(1,5) s' g by (simp add: s(4) upt6)
qed



section \<open>Activation profiles\<close>

lemma nth_activations:
  "i < length hist \<Longrightarrow> activations probe hist r ! i =
     \<lparr>a_name = h_item (hist ! i), a_activation = dot probe (h_context (hist ! i)),
      a_isTarget = (r = Some i)\<rparr>"
  by (simp add: activations_def nth_enumerate_eq)

lemma nth_similarities:
  "i < length states \<Longrightarrow> similarities c states ! i =
     \<lparr>s_name = item (states ! i), s_similarity = dot c (contextAtEncoding (states ! i)),
      s_index = i\<rparr>"
  by (simp add: similarities_def nth_enumerate_eq)

text \<open>
  Claim C2. For every probe and every history, \<^verbatim>\<open>activations\<close> (and \<^verbatim>\<open>similarities\<close>
  on the recency slide) has one entry per record, in the order of the history; entry
  \<open>i\<close> carries the name of record \<open>i\<close> and the value \<^verbatim>\<open>dot\<close> of the probe and the
  context stored in record \<open>i\<close>. The record that supplies the probe is not left out: its
  entry is marked as the target and holds the probe's product with itself. On finite
  vectors of one length \<^verbatim>\<open>dot\<close> is the sum of the products of the components, with no
  normalization.
\<close>

theorem activation_profile:
  "length (activations probe hist recalledIndex) = length hist
   \<and> (\<forall>i<length hist.
         a_activation (activations probe hist recalledIndex ! i) = dot probe (h_context (hist ! i))
       \<and> a_name (activations probe hist recalledIndex ! i) = h_item (hist ! i))
   \<and> (\<forall>k. currentProbeContext hist (Some k) = Inr probe \<longrightarrow>
         k < length hist \<and> probe = h_context (hist ! k)
       \<and> a_isTarget (activations probe hist (Some k) ! k)
       \<and> a_activation (activations probe hist (Some k) ! k) = dot probe probe)
   \<and> length (similarities probe states) = length states
   \<and> (\<forall>i<length states.
         s_similarity (similarities probe states ! i) = dot probe (contextAtEncoding (states ! i))
       \<and> s_name (similarities probe states ! i) = item (states ! i)
       \<and> s_index (similarities probe states ! i) = i)
   \<and> (\<forall>xs ys. length xs = length ys \<longrightarrow>
         dot (map Num xs) (map Num ys) = Num (\<Sum>(x, y)\<leftarrow>zip xs ys. x * y))"
proof (intro conjI allI impI)
  show "length (activations probe hist recalledIndex) = length hist"
    by (simp add: activations_def)
  show "length (similarities probe states) = length states"
    by (simp add: similarities_def)
next
  fix i assume "i < length hist"
  then show "a_activation (activations probe hist recalledIndex ! i) = dot probe (h_context (hist ! i))"
    and "a_name (activations probe hist recalledIndex ! i) = h_item (hist ! i)"
    by (simp_all add: nth_activations)
next
  fix k assume p: "currentProbeContext hist (Some k) = Inr probe"
  then show k: "k < length hist" and e: "probe = h_context (hist ! k)"
    by (auto simp add: currentProbeContext_def split: if_splits)
  from k show "a_isTarget (activations probe hist (Some k) ! k)"
    by (simp add: nth_activations)
  from k e show "a_activation (activations probe hist (Some k) ! k) = dot probe probe"
    by (simp add: nth_activations)
next
  fix i assume "i < length states"
  then show "s_similarity (similarities probe states ! i) = dot probe (contextAtEncoding (states ! i))"
    and "s_name (similarities probe states ! i) = item (states ! i)"
    and "s_index (similarities probe states ! i) = i"
    by (simp_all add: nth_similarities)
next
  fix xs ys :: "real list" assume "length xs = length ys"
  then show "dot (map Num xs) (map Num ys) = Num (\<Sum>(x, y)\<leftarrow>zip xs ys. x * y)"
    by (simp add: dot_Num)
qed

theorem activation_profile_witness:
  "a_activation (activations [Num 1, Num 2]
       [\<lparr>h_item = ''Apple'', h_context = [Num 3, Num 0], h_originalIndex = 0\<rparr>,
        \<lparr>h_item = ''Beach'', h_context = [Num 1, Num 2], h_originalIndex = 1\<rparr>] (Some 1) ! 1)
     = Num 5
   \<and> a_activation (activations [Num 1, Num 2]
       [\<lparr>h_item = ''Apple'', h_context = [Num 3, Num 0], h_originalIndex = 0\<rparr>,
        \<lparr>h_item = ''Beach'', h_context = [Num 1, Num 2], h_originalIndex = 1\<rparr>] (Some 1) ! 0)
     = Num 3
   \<and> s_similarity (similarities [Num 1, Num 2]
       [\<lparr>item = ''Apple'', contextAtEncoding = [Num 3, Num 0]\<rparr>] ! 0) = Num 3"
proof -
  let ?hist = "[\<lparr>h_item = ''Apple'', h_context = [Num 3, Num 0], h_originalIndex = 0\<rparr>,
        \<lparr>h_item = ''Beach'', h_context = [Num 1, Num 2], h_originalIndex = 1\<rparr>]"
  let ?states = "[\<lparr>item = ''Apple'', contextAtEncoding = [Num 3, Num 0]\<rparr>]"
  note ap = activation_profile [of "[Num 1, Num 2]" ?hist "Some 1" ?states]
  have p: "currentProbeContext ?hist (Some 1) = Inr [Num 1, Num 2]"
    by (simp add: currentProbeContext_def)
  have d: "dot [Num 1, Num 2] [Num 3, Num 0] = Num 3"
    using ap [THEN conjunct2, THEN conjunct2, THEN conjunct2, THEN conjunct2, THEN conjunct2,
        rule_format, of "[1, 2]" "[3, 0]"]
    by simp
  have "a_activation (activations [Num 1, Num 2] ?hist (Some 1) ! 1) = dot [Num 1, Num 2] [Num 1, Num 2]"
    using ap [THEN conjunct2, THEN conjunct2, THEN conjunct1, rule_format, of 1] p by simp
  moreover have "a_activation (activations [Num 1, Num 2] ?hist (Some 1) ! 0) = dot [Num 1, Num 2] [Num 3, Num 0]"
    using ap [THEN conjunct2, THEN conjunct1, rule_format, of 0] by simp
  moreover have "s_similarity (similarities [Num 1, Num 2] ?states ! 0) = dot [Num 1, Num 2] [Num 3, Num 0]"
    using ap [THEN conjunct2, THEN conjunct2, THEN conjunct2, THEN conjunct2, THEN conjunct1,
        rule_format, of 0] by simp
  ultimately show ?thesis
    using d by (simp add: dot_def read_def)
qed

section \<open>Contiguity\<close>

lemma encodingHistory_loop_closed:
  assumes "i \<le> 6"
  shows "encodingHistory_loop (Num rho) (Num beta) i
           (map (\<lambda>j. Num (if j < i then beta * rho ^ (i - 1 - j) else 0)) [0..<6]) hist
         = Inr (hist @ map (\<lambda>k. \<lparr>h_item = ITEMS ! k,
                    h_context =
                      map (\<lambda>j. Num (if j < Suc k then beta * rho ^ (Suc k - 1 - j) else 0)) [0..<6],
                    h_originalIndex = k\<rparr>)
                  [i..<6])"
  using assms
proof (induction "6 - i" arbitrary: i hist)
  case 0
  then have "i = 6" by simp
  then show ?case
    by (simp add: encodingHistory_loop.simps [of _ _ 6] listLength_def)
next
  case (Suc n)
  then have i: "i < 6" and n: "n = 6 - Suc i" and le: "Suc i \<le> 6" by simp_all
  have u: "[i..<6] = i # [Suc i..<6]"
    using i by (simp add: upt_conv_Cons)
  show ?case
    using i Suc.hyps(1) [OF n le]
    by (subst encodingHistory_loop.simps)
       (simp add: listLength_def createItemVector_VECTOR_SIZE drift_step u del: upt_Suc)
qed

lemma encodingHistory_closed:
  "encodingHistory (Num rho) (Num beta)
     = Inr (map (\<lambda>k. \<lparr>h_item = ITEMS ! k,
                    h_context =
                      map (\<lambda>j. Num (if j < Suc k then beta * rho ^ (Suc k - 1 - j) else 0)) [0..<6],
                    h_originalIndex = k\<rparr>)
              [0..<6])"
  unfolding encodingHistory_def zero_context [of beta rho]
  using encodingHistory_loop_closed [of 0 rho beta "[]"]
  by (simp only: sum.case append_Nil le0)

lemma encodingHistory_06_08:
  "encodingHistory (Num 0.6) (Num 0.8) =
     Inr [\<lparr>h_item = ''Apple'', h_context = [Num 0.8, Num 0, Num 0, Num 0, Num 0, Num 0], h_originalIndex = 0\<rparr>,
          \<lparr>h_item = ''Beach'', h_context = [Num 0.48, Num 0.8, Num 0, Num 0, Num 0, Num 0], h_originalIndex = 1\<rparr>,
          \<lparr>h_item = ''Car'', h_context = [Num 0.288, Num 0.48, Num 0.8, Num 0, Num 0, Num 0], h_originalIndex = 2\<rparr>,
          \<lparr>h_item = ''Dog'', h_context = [Num 0.1728, Num 0.288, Num 0.48, Num 0.8, Num 0, Num 0], h_originalIndex = 3\<rparr>,
          \<lparr>h_item = ''Eagle'', h_context = [Num 0.10368, Num 0.1728, Num 0.288, Num 0.48, Num 0.8, Num 0], h_originalIndex = 4\<rparr>,
          \<lparr>h_item = ''Forest'', h_context = [Num 0.062208, Num 0.10368, Num 0.1728, Num 0.288, Num 0.48, Num 0.8], h_originalIndex = 5\<rparr>]"
  by (simp add: encodingHistory_closed upt6 ITEMS_def power_divide)

lemma encodingHistory_075_06:
  "encodingHistory (Num 0.75) (Num 0.6) =
     Inr [\<lparr>h_item = ''Apple'', h_context = [Num 0.6, Num 0, Num 0, Num 0, Num 0, Num 0], h_originalIndex = 0\<rparr>,
          \<lparr>h_item = ''Beach'', h_context = [Num 0.45, Num 0.6, Num 0, Num 0, Num 0, Num 0], h_originalIndex = 1\<rparr>,
          \<lparr>h_item = ''Car'', h_context = [Num 0.3375, Num 0.45, Num 0.6, Num 0, Num 0, Num 0], h_originalIndex = 2\<rparr>,
          \<lparr>h_item = ''Dog'', h_context = [Num 0.253125, Num 0.3375, Num 0.45, Num 0.6, Num 0, Num 0], h_originalIndex = 3\<rparr>,
          \<lparr>h_item = ''Eagle'', h_context = [Num 0.18984375, Num 0.253125, Num 0.3375, Num 0.45, Num 0.6, Num 0], h_originalIndex = 4\<rparr>,
          \<lparr>h_item = ''Forest'', h_context = [Num 0.142382812500, Num 0.18984375, Num 0.253125, Num 0.3375, Num 0.45, Num 0.6], h_originalIndex = 5\<rparr>]"
  by (simp add: encodingHistory_closed upt6 ITEMS_def power_divide)

text \<open>
  Claim C4. In the six-item run with \<open>rho = 0.6\<close> and \<open>beta = 0.8\<close>, probing with the
  context stored at position 2 gives the activations 0.2304, 0.52224, 0.953344,
  0.5720064, 0.34320384 and 0.205922304: those at positions 1 and 3 are each above
  the average of those at positions 0 and 5. The slide's own constants,
  \<open>rho = 0.75\<close> and \<open>beta = 0.6\<close>, give 0.2025, 0.421875, 0.67640625, 0.5073046875,
  0.380478515625 and 0.28535888671875, with the same property.
\<close>

theorem contiguity_after_recall_2:
  "RetrievalContiguity_activations (Num 0.6) (Num 0.8) (Some 2) =
     Inr [\<lparr>a_name = ''Apple'', a_activation = Num 0.2304, a_isTarget = False\<rparr>,
          \<lparr>a_name = ''Beach'', a_activation = Num 0.52224, a_isTarget = False\<rparr>,
          \<lparr>a_name = ''Car'', a_activation = Num 0.953344, a_isTarget = True\<rparr>,
          \<lparr>a_name = ''Dog'', a_activation = Num 0.5720064, a_isTarget = False\<rparr>,
          \<lparr>a_name = ''Eagle'', a_activation = Num 0.34320384, a_isTarget = False\<rparr>,
          \<lparr>a_name = ''Forest'', a_activation = Num 0.205922304, a_isTarget = False\<rparr>]
   \<and> (0.52224 :: real) > (0.2304 + 0.205922304) / 2
   \<and> (0.5720064 :: real) > (0.2304 + 0.205922304) / 2
   \<and> RetrievalContiguity (Some 2) =
     Inr [\<lparr>a_name = ''Apple'', a_activation = Num 0.2025, a_isTarget = False\<rparr>,
          \<lparr>a_name = ''Beach'', a_activation = Num 0.421875, a_isTarget = False\<rparr>,
          \<lparr>a_name = ''Car'', a_activation = Num 0.67640625, a_isTarget = True\<rparr>,
          \<lparr>a_name = ''Dog'', a_activation = Num 0.5073046875, a_isTarget = False\<rparr>,
          \<lparr>a_name = ''Eagle'', a_activation = Num 0.380478515625, a_isTarget = False\<rparr>,
          \<lparr>a_name = ''Forest'', a_activation = Num 0.28535888671875, a_isTarget = False\<rparr>]
   \<and> (0.421875 :: real) > (0.2025 + 0.28535888671875) / 2
   \<and> (0.5073046875 :: real) > (0.2025 + 0.28535888671875) / 2"
  unfolding RetrievalContiguity_def RetrievalContiguity_activations_def encodingHistory_06_08
    encodingHistory_075_06
  by (simp add: currentProbeContext_def activations_def dot_def read_def)

section \<open>Sliders and reset\<close>





end
